theory Spec2Isabelle
  imports Main "HOL-Library.Sublist"
begin

section \<open>Digital asset registry: data model\<close>

text \<open>
  The registry of \<^verbatim>\<open>src/index.ts\<close>. Classes are records, enums are datatypes, the
  three module-level maps are the fields of the record \<open>registry\<close>, and every route handler is
  a function from the registry and the request to a response and the registry after it.
  Two record fields are called \<^verbatim>\<open>id\<close> in the source; they are \<open>id_asset\<close> and
  \<open>id_transfer\<close> here. A date is the number of milliseconds \<^verbatim>\<open>getCurrentDate\<close>
  computes. The calls of \<^verbatim>\<open>log\<close> only print and are left out.
\<close>

datatype AssetType = IMAGE | AUDIO | VIDEO | DOCUMENT | CODE

datatype AssetStatus = ACTIVE | TRANSFERRED | REVOKED | DELETED

datatype TransferType = FULL | LICENSE

text \<open>
  A value of the JSON request body. The metadata of an asset is whatever object the request
  carried, so it is a finite map from keys to such values; numbers are integers here, no
  handler computes with them.
\<close>

datatype json = JNull | JBool bool | JNum int | JStr string | JArr "json list"
  | JObj "(string \<times> json) list"

type_synonym AssetMetadata = "string \<rightharpoonup> json"

record Transfer =
  id_transfer :: string
  fromId :: string
  toId :: string
  transferDate :: nat
  transferType :: TransferType

record DigitalAsset =
  id_asset :: string
  title :: string
  description :: string
  assetType :: AssetType
  creatorId :: string
  contentHash :: string
  registrationDate :: nat
  lastModified :: nat
  transferHistory :: "Transfer list"
  status :: AssetStatus
  metadata :: AssetMetadata

text \<open>
  \<open>assetStorage\<close> and \<open>creatorAssets\<close> are the two stable maps the handlers use
  (\<^verbatim>\<open>assetTransfers\<close> is declared and never read or written); \<open>rateLimiter\<close> is the
  counter map of \<^verbatim>\<open>rateLimit\<close>.
\<close>

record registry =
  assetStorage :: "string \<rightharpoonup> DigitalAsset"
  creatorAssets :: "string \<rightharpoonup> string list"
  rateLimiter :: "string \<rightharpoonup> nat"

definition empty_registry :: registry where
  "empty_registry = \<lparr>assetStorage = Map.empty, creatorAssets = Map.empty, rateLimiter = Map.empty\<rparr>"

text \<open>
  \<open>AppError\<close> carries its message and status code. \<open>TypeError\<close> is the exception the
  runtime raises when a property of \<^verbatim>\<open>undefined\<close> is read or a value cannot be encoded
  as JSON; it is not an \<open>AppError\<close>.
\<close>

datatype error = AppError string nat | TypeError

definition handleError :: "error \<Rightarrow> nat" where
  "handleError e = (case e of AppError m statusCode \<Rightarrow> statusCode | TypeError \<Rightarrow> 500)"

type_synonym 'a response = "(error + 'a) \<times> registry"

section \<open>Utility functions\<close>

text \<open>\<open>timestampNs\<close> is the value of \<^verbatim>\<open>ic.time()\<close> during the call.\<close>

definition getCurrentDate :: "nat \<Rightarrow> nat" where
  "getCurrentDate timestampNs = timestampNs div 1000000"

definition is_hex :: "char \<Rightarrow> bool" where
  "is_hex c = (c \<in> set ''0123456789abcdefABCDEF'')"

text \<open>The two regular expressions of \<^verbatim>\<open>validateAssetRegistration\<close>.\<close>

definition is_uuid :: "string \<Rightarrow> bool" where
  "is_uuid s = (length s = 36
     \<and> list_all is_hex (take 8 s) \<and> take 1 (drop 8 s) = ''-''
     \<and> list_all is_hex (take 4 (drop 9 s)) \<and> take 1 (drop 13 s) = ''-''
     \<and> list_all is_hex (take 4 (drop 14 s)) \<and> take 1 (drop 18 s) = ''-''
     \<and> list_all is_hex (take 4 (drop 19 s)) \<and> take 1 (drop 23 s) = ''-''
     \<and> list_all is_hex (drop 24 s))"

definition is_content_hash :: "string \<Rightarrow> bool" where
  "is_content_hash s = (length s = 64 \<and> list_all is_hex s)"

definition parse_AssetType :: "string \<Rightarrow> AssetType option" where
  "parse_AssetType s =
     (if s = ''IMAGE'' then Some IMAGE
      else if s = ''AUDIO'' then Some AUDIO
      else if s = ''VIDEO'' then Some VIDEO
      else if s = ''DOCUMENT'' then Some DOCUMENT
      else if s = ''CODE'' then Some CODE
      else None)"

text \<open>
  The body of \<^verbatim>\<open>POST /assets\<close>. \<open>req_assetType\<close> is the string sent;
  \<open>req_metadata\<close> is \<open>None\<close> when the body has no metadata object.
\<close>

record asset_registration =
  req_title :: string
  req_description :: string
  req_assetType :: string
  req_creatorId :: string
  req_contentHash :: string
  req_metadata :: "AssetMetadata option"

text \<open>
  The checks in the source's order. On success the function hands back the asset type and
  the metadata it has checked, which the handler then stores.
\<close>

definition validateAssetRegistration ::
  "asset_registration \<Rightarrow> error + (AssetType \<times> AssetMetadata)" where
  "validateAssetRegistration data =
     (if req_title data = [] \<or> length (req_title data) > 100
        then Inl (AppError ''Invalid title'' 400)
      else if req_creatorId data = [] \<or> \<not> is_uuid (req_creatorId data)
        then Inl (AppError ''Invalid creator ID'' 400)
      else if req_contentHash data = [] \<or> \<not> is_content_hash (req_contentHash data)
        then Inl (AppError ''Invalid content hash'' 400)
      else case parse_AssetType (req_assetType data) of
        None \<Rightarrow> Inl (AppError ''Invalid asset type'' 400)
      | Some ty \<Rightarrow>
         (case req_metadata data of
            None \<Rightarrow> Inl (AppError ''Invalid metadata'' 400)
          | Some md \<Rightarrow> Inr (ty, md)))"

definition isAuthorized :: "registry \<Rightarrow> string \<Rightarrow> string \<Rightarrow> bool" where
  "isAuthorized s assetId userId =
     (case assetStorage s assetId of
        None \<Rightarrow> False
      | Some asset \<Rightarrow> creatorId asset = userId)"

text \<open>
  \<^verbatim>\<open>rateLimit\<close> counts the request; the reset it schedules with \<^verbatim>\<open>setTimeout\<close> is the
  separate event \<open>timerReset\<close>, which may run at any later point.
\<close>

definition rateLimit :: "registry \<Rightarrow> string \<Rightarrow> nat \<Rightarrow> bool \<times> registry" where
  "rateLimit s userId limit =
     (let userRequests = (case rateLimiter s userId of None \<Rightarrow> 0 | Some n \<Rightarrow> n)
      in if userRequests \<ge> limit then (False, s)
         else (True, s\<lparr>rateLimiter := (rateLimiter s)(userId \<mapsto> userRequests + 1)\<rparr>))"

definition timerReset :: "registry \<Rightarrow> string \<Rightarrow> nat \<Rightarrow> registry" where
  "timerReset s userId userRequests = s\<lparr>rateLimiter := (rateLimiter s)(userId \<mapsto> userRequests)\<rparr>"

section \<open>Route handlers\<close>

text \<open>
  \<^verbatim>\<open>POST /assets\<close>. \<open>uuid\<close> is what \<^verbatim>\<open>uuidv4()\<close> returns in this call.
\<close>

definition createAsset ::
  "registry \<Rightarrow> asset_registration \<Rightarrow> string \<Rightarrow> nat \<Rightarrow> DigitalAsset response" where
  "createAsset s body uuid timestampNs =
     (case rateLimit s (req_creatorId body) 10 of
        (False, s1) \<Rightarrow> (Inl (AppError ''Too many requests'' 429), s1)
      | (True, s1) \<Rightarrow>
         (case validateAssetRegistration body of
            Inl e \<Rightarrow> (Inl e, s1)
          | Inr (ty, md) \<Rightarrow>
             (let assetId = uuid;
                  asset = \<lparr>id_asset = assetId,
                           title = req_title body,
                           description = req_description body,
                           assetType = ty,
                           creatorId = req_creatorId body,
                           contentHash = req_contentHash body,
                           registrationDate = getCurrentDate timestampNs,
                           lastModified = getCurrentDate timestampNs,
                           transferHistory = [],
                           status = ACTIVE,
                           metadata = md\<rparr>;
                  s2 = s1\<lparr>assetStorage := (assetStorage s1)(assetId \<mapsto> asset)\<rparr>;
                  s3 = (case creatorAssets s2 (req_creatorId body) of
                          None \<Rightarrow> s2\<lparr>creatorAssets :=
                                       (creatorAssets s2)(req_creatorId body \<mapsto> [assetId])\<rparr>
                        | Some creatorAssetList \<Rightarrow> s2\<lparr>creatorAssets :=
                                       (creatorAssets s2)(req_creatorId body \<mapsto>
                                          creatorAssetList @ [assetId])\<rparr>)
              in (Inr asset, s3))))"

text \<open>
  The two read-only routes send stored assets back to the caller, through two library
  functions whose code is not part of the repository's sources: \<^verbatim>\<open>assetStorage.get\<close>
  decodes the stored bytes of an asset into a value (the store's \<^verbatim>\<open>fromBytes\<close>), and
  \<^verbatim>\<open>res.json\<close> encodes the reply with \<^verbatim>\<open>JSON.stringify\<close>. Either may raise, inside
  the handler's \<^verbatim>\<open>try\<close>, and the \<^verbatim>\<open>catch\<close> then answers through \<open>handleError\<close>.
  The two functions are parameters of the model: \<open>fromBytes\<close> gives the value the handler
  holds for a stored asset, or the exception raised, and \<open>stringify_raises\<close> says whether
  encoding such a value raises. \<open>'v\<close> is the type of the values.
\<close>

record 'v library =
  fromBytes :: "DigitalAsset \<Rightarrow> error + 'v"
  stringify_raises :: "'v \<Rightarrow> bool"

text \<open>\<^verbatim>\<open>assetStorage.get(key)\<close>, with \<open>None\<close> for an absent key.\<close>

definition stable_get :: "'v library \<Rightarrow> registry \<Rightarrow> string \<Rightarrow> error + 'v option" where
  "stable_get lib s key =
     (case assetStorage s key of
        None \<Rightarrow> Inr None
      | Some stored \<Rightarrow>
         (case fromBytes lib stored of
            Inl e \<Rightarrow> Inl e
          | Inr v \<Rightarrow> Inr (Some v)))"

text \<open>\<^verbatim>\<open>res.json(body)\<close>: the reply is the body, unless encoding it raises.\<close>

definition res_json :: "('b \<Rightarrow> bool) \<Rightarrow> 'b \<Rightarrow> error + 'b" where
  "res_json raises body = (if raises body then Inl TypeError else Inr body)"

text \<open>\<^verbatim>\<open>GET /assets/:id\<close>.\<close>

definition getAssetById :: "'v library \<Rightarrow> registry \<Rightarrow> string \<Rightarrow> error + 'v" where
  "getAssetById lib s assetId =
     (case stable_get lib s assetId of
        Inl e \<Rightarrow> Inl e
      | Inr None \<Rightarrow> Inl (AppError ''Asset not found'' 404)
      | Inr (Some asset) \<Rightarrow> res_json (stringify_raises lib) asset)"



record 'v listing =
  assets :: "'v list"
  total :: nat
  page :: int
  limit :: int




text \<open>
  \<^verbatim>\<open>POST /assets/:id/transfer\<close>. \<open>uuid\<close> is the identifier generated for the transfer
  record. The old creator's list is read with \<^verbatim>\<open>.Some\<close> and no presence check: when the
  entry is absent the value is \<^verbatim>\<open>undefined\<close>, and calling \<^verbatim>\<open>filter\<close> on it raises
  before the first \<^verbatim>\<open>insert\<close> runs. The new creator's list is read after the old
  creator's entry has been written.
\<close>

definition transferAsset ::
  "registry \<Rightarrow> string \<Rightarrow> string \<Rightarrow> string \<Rightarrow> TransferType \<Rightarrow> string \<Rightarrow> nat
     \<Rightarrow> DigitalAsset response" where
  "transferAsset s assetId fromUser toUser ttype uuid timestampNs =
     (if \<not> isAuthorized s assetId fromUser then (Inl (AppError ''Unauthorized'' 403), s)
      else case assetStorage s assetId of
        None \<Rightarrow> (Inl (AppError ''Asset not found'' 404), s)
      | Some asset \<Rightarrow>
         if status asset \<noteq> ACTIVE
           then (Inl (AppError ''Asset is not available for transfer'' 400), s)
         else
           (let transfer = \<lparr>id_transfer = uuid,
                            fromId = creatorId asset,
                            toId = toUser,
                            transferDate = getCurrentDate timestampNs,
                            transferType = ttype\<rparr>;
                updatedAsset = asset\<lparr>
                  transferHistory := transferHistory asset @ [transfer],
                  status := (if ttype = FULL then TRANSFERRED else ACTIVE),
                  lastModified := getCurrentDate timestampNs\<rparr>
            in if ttype = FULL then
                 (case creatorAssets s (creatorId asset) of
                    None \<Rightarrow> (Inl TypeError, s)
                  | Some oldCreatorAssets \<Rightarrow>
                     (let s1 = s\<lparr>creatorAssets := (creatorAssets s)(creatorId asset \<mapsto>
                                   filter (\<lambda>i. i \<noteq> id_asset asset) oldCreatorAssets)\<rparr>;
                          s2 = (case creatorAssets s1 toUser of
                                  None \<Rightarrow> s1\<lparr>creatorAssets :=
                                             (creatorAssets s1)(toUser \<mapsto> [id_asset asset])\<rparr>
                                | Some newCreatorAssets \<Rightarrow> s1\<lparr>creatorAssets :=
                                             (creatorAssets s1)(toUser \<mapsto>
                                                newCreatorAssets @ [id_asset asset])\<rparr>)
                      in (Inr updatedAsset,
                          s2\<lparr>assetStorage := (assetStorage s2)(id_asset asset \<mapsto> updatedAsset)\<rparr>)))
               else (Inr updatedAsset,
                     s\<lparr>assetStorage := (assetStorage s)(id_asset asset \<mapsto> updatedAsset)\<rparr>)))"

text \<open>
  \<^verbatim>\<open>PUT /assets/:id/metadata\<close>. The two spreads are a shallow merge: the keys of the
  request's metadata override the stored ones.
\<close>

definition updateAssetMetadata ::
  "registry \<Rightarrow> string \<Rightarrow> string \<Rightarrow> AssetMetadata \<Rightarrow> nat \<Rightarrow> DigitalAsset response" where
  "updateAssetMetadata s assetId user newMetadata timestampNs =
     (if \<not> isAuthorized s assetId user then (Inl (AppError ''Unauthorized'' 403), s)
      else case assetStorage s assetId of
        None \<Rightarrow> (Inl (AppError ''Asset not found'' 404), s)
      | Some asset \<Rightarrow>
         (let updatedAsset = asset\<lparr>
                metadata := metadata asset ++ newMetadata,
                lastModified := getCurrentDate timestampNs\<rparr>
          in (Inr updatedAsset,
              s\<lparr>assetStorage := (assetStorage s)(id_asset asset \<mapsto> updatedAsset)\<rparr>)))"

text \<open>\<^verbatim>\<open>POST /assets/:id/revoke\<close>.\<close>

definition revokeAsset ::
  "registry \<Rightarrow> string \<Rightarrow> string \<Rightarrow> nat \<Rightarrow> DigitalAsset response" where
  "revokeAsset s assetId user timestampNs =
     (if \<not> isAuthorized s assetId user then (Inl (AppError ''Unauthorized'' 403), s)
      else case assetStorage s assetId of
        None \<Rightarrow> (Inl (AppError ''Asset not found'' 404), s)
      | Some asset \<Rightarrow>
         if status asset = REVOKED
           then (Inl (AppError ''Asset is already revoked'' 400), s)
         else
           (let updatedAsset = asset\<lparr>
                  status := REVOKED,
                  lastModified := getCurrentDate timestampNs\<rparr>
            in (Inr updatedAsset,
                s\<lparr>assetStorage := (assetStorage s)(id_asset asset \<mapsto> updatedAsset)\<rparr>)))"

text \<open>\<^verbatim>\<open>DELETE /assets/:id\<close>; the response is the confirmation message.\<close>

definition deleteAsset ::
  "registry \<Rightarrow> string \<Rightarrow> string \<Rightarrow> nat \<Rightarrow> string response" where
  "deleteAsset s assetId user timestampNs =
     (if \<not> isAuthorized s assetId user then (Inl (AppError ''Unauthorized'' 403), s)
      else case assetStorage s assetId of
        None \<Rightarrow> (Inl (AppError ''Asset not found'' 404), s)
      | Some asset \<Rightarrow>
         (let updatedAsset = asset\<lparr>
                status := DELETED,
                lastModified := getCurrentDate timestampNs\<rparr>
          in (Inr ''Asset deleted successfully'',
              s\<lparr>assetStorage := (assetStorage s)(id_asset asset \<mapsto> updatedAsset)\<rparr>)))"

section \<open>A decoder and an encoder\<close>

text \<open>
  An instance of the two library functions, for evaluating the read-only routes. The store
  keeps an asset as JSON text and reads it back with a reviver, which is run on every
  object after its members: an object with a string member \<^verbatim>\<open>__bigint__\<close> is read back as
  the BigInt of that string, and one with a string member \<^verbatim>\<open>__nan__\<close>,
  \<^verbatim>\<open>__infinity__\<close> or \<^verbatim>\<open>__negative_infinity__\<close> as that number. \<open>jsvalue\<close> is the type
  of the values read back. \<^verbatim>\<open>JSON.stringify\<close> raises a \<open>TypeError\<close> on a BigInt and on
  any array or object that holds one. The instance covers these four markers only: it does
  not model the exception BigInt raises for a string that is no integer literal, nor the
  markers of principals and typed arrays.
\<close>

datatype jsvalue = VNull | VBool bool | VNum int | VStr string | VArr "jsvalue list"
  | VObj "(string \<times> jsvalue) list" | VBigInt string | VNaN | VInfinity | VNegInfinity

definition marker :: "(string \<rightharpoonup> jsvalue) \<Rightarrow> jsvalue option" where
  "marker field =
     (case field ''__bigint__'' of
        Some (VStr s) \<Rightarrow> Some (VBigInt s)
      | _ \<Rightarrow>
     (case field ''__nan__'' of
        Some (VStr s) \<Rightarrow> Some VNaN
      | _ \<Rightarrow>
     (case field ''__infinity__'' of
        Some (VStr s) \<Rightarrow> Some VInfinity
      | _ \<Rightarrow>
     (case field ''__negative_infinity__'' of
        Some (VStr s) \<Rightarrow> Some VNegInfinity
      | _ \<Rightarrow> None))))"

text \<open>Of two members with the same key the later one counts.\<close>

definition revive_object :: "(string \<times> jsvalue) list \<Rightarrow> jsvalue" where
  "revive_object members =
     (case marker (map_of (rev members)) of Some v \<Rightarrow> v | None \<Rightarrow> VObj members)"

primrec revive :: "json \<Rightarrow> jsvalue" where
  "revive JNull = VNull"
| "revive (JBool b) = VBool b"
| "revive (JNum n) = VNum n"
| "revive (JStr s) = VStr s"
| "revive (JArr xs) = VArr (map revive xs)"
| "revive (JObj members) = revive_object (map (map_prod id revive) members)"

primrec has_bigint :: "jsvalue \<Rightarrow> bool" where
  "has_bigint VNull = False"
| "has_bigint (VBool b) = False"
| "has_bigint (VNum n) = False"
| "has_bigint (VStr s) = False"
| "has_bigint (VArr xs) = list_ex id (map has_bigint xs)"
| "has_bigint (VObj members) = list_ex snd (map (map_prod id has_bigint) members)"
| "has_bigint (VBigInt s) = True"
| "has_bigint VNaN = False"
| "has_bigint VInfinity = False"
| "has_bigint VNegInfinity = False"

text \<open>
  The metadata of an asset is itself an object: it is read back as the marked value when it
  has a marker, and as its members read back otherwise.
\<close>

datatype metadata_value = Marked jsvalue | Fields "string \<rightharpoonup> jsvalue"

definition revive_metadata :: "AssetMetadata \<Rightarrow> metadata_value" where
  "revive_metadata md =
     (let field = (\<lambda>key. map_option revive (md key))
      in case marker field of Some v \<Rightarrow> Marked v | None \<Rightarrow> Fields field)"

text \<open>
  An asset as a handler holds it after \<^verbatim>\<open>get\<close>: \<open>written\<close> is the stored record, whose
  members other than the metadata are strings and numbers and are read back as they were
  written, and \<open>read_metadata\<close> is the metadata read back.
\<close>

record asset_value =
  written :: DigitalAsset
  read_metadata :: metadata_value

definition asset_raises :: "asset_value \<Rightarrow> bool" where
  "asset_raises v =
     (case read_metadata v of
        Marked x \<Rightarrow> has_bigint x
      | Fields field \<Rightarrow> (\<exists>x \<in> ran field. has_bigint x))"

definition stable_json :: "asset_value library" where
  "stable_json =
     \<lparr>fromBytes = (\<lambda>stored. Inr \<lparr>written = stored,
                                  read_metadata = revive_metadata (metadata stored)\<rparr>),
      stringify_raises = asset_raises\<rparr>"

text \<open>A JSON value in which no object has a member named \<^verbatim>\<open>__bigint__\<close>.\<close>

primrec bigint_free :: "json \<Rightarrow> bool" where
  "bigint_free JNull = True"
| "bigint_free (JBool b) = True"
| "bigint_free (JNum n) = True"
| "bigint_free (JStr s) = True"
| "bigint_free (JArr xs) = list_all id (map bigint_free xs)"
| "bigint_free (JObj members) =
     (''__bigint__'' \<notin> fst ` set members
      \<and> list_all snd (map (map_prod id bigint_free) members))"

section \<open>Sequences of operations\<close>

text \<open>
  One constructor for each state-changing request, with the values the environment supplies
  in that call (generated identifier, time), and one for the timer callback of the rate
  limiter. The two read-only routes change nothing and are left out.
\<close>

datatype operation =
    CreateAsset asset_registration string nat
  | TransferAsset string string string TransferType string nat
  | UpdateAssetMetadata string string AssetMetadata nat
  | RevokeAsset string string nat
  | DeleteAsset string string nat
  | TimerReset string nat

fun step :: "registry \<Rightarrow> operation \<Rightarrow> registry" where
  "step s (CreateAsset body uuid t) = snd (createAsset s body uuid t)"
| "step s (TransferAsset assetId fromUser toUser ttype uuid t) =
     snd (transferAsset s assetId fromUser toUser ttype uuid t)"
| "step s (UpdateAssetMetadata assetId user md t) = snd (updateAssetMetadata s assetId user md t)"
| "step s (RevokeAsset assetId user t) = snd (revokeAsset s assetId user t)"
| "step s (DeleteAsset assetId user t) = snd (deleteAsset s assetId user t)"
| "step s (TimerReset userId n) = timerReset s userId n"

definition run :: "registry \<Rightarrow> operation list \<Rightarrow> registry" where
  "run s ops = foldl step s ops"

text \<open>
  The identifiers \<^verbatim>\<open>uuidv4()\<close> generates for new assets are fresh: none is the key of an
  asset stored at the moment it is generated.
\<close>

fun fresh_uuids :: "registry \<Rightarrow> operation list \<Rightarrow> bool" where
  "fresh_uuids s [] = True"
| "fresh_uuids s (CreateAsset body uuid t # ops) =
     (assetStorage s uuid = None \<and> fresh_uuids (step s (CreateAsset body uuid t)) ops)"
| "fresh_uuids s (oper # ops) = fresh_uuids (step s oper) ops"

section \<open>Invariants of the store\<close>

text \<open>Every asset is stored under its own identifier.\<close>

definition keys_wf :: "registry \<Rightarrow> bool" where
  "keys_wf s = (\<forall>k a. assetStorage s k = Some a \<longrightarrow> id_asset a = k)"

text \<open>
  Every asset of \<open>s\<close> is still stored in \<open>s'\<close>, and its transfer history in \<open>s\<close> is an
  initial segment of its transfer history in \<open>s'\<close>.
\<close>

definition history_kept :: "registry \<Rightarrow> registry \<Rightarrow> bool" where
  "history_kept s s' = (\<forall>k a. assetStorage s k = Some a \<longrightarrow>
      (\<exists>a'. assetStorage s' k = Some a' \<and> prefix (transferHistory a) (transferHistory a')))"

section \<open>Sample data\<close>

text \<open>
  The scenarios of the specification: creator \<open>U1\<close> registers an asset (\<open>reg_A\<close>), then
  transfers it in full to \<open>U2\<close> (\<open>reg_B\<close>); \<open>reg_R\<close> holds the asset revoked, \<open>reg_L\<close>
  after a license transfer, \<open>reg_N\<close> with no index entry for its creator, and \<open>reg_F\<close>
  holds fifteen assets of \<open>U1\<close>. In \<open>reg_P\<close> creator \<open>U1\<close> has registered one asset whose
  metadata is \<^verbatim>\<open>{"y": {"__bigint__": "5"}}\<close>.
\<close>

definition U1 :: string where
  "U1 = ''550e8400-e29b-41d4-a716-446655440000''"

definition U2 :: string where
  "U2 = ''550e8400-e29b-41d4-a716-446655440001''"

definition mona_lisa :: asset_registration where
  "mona_lisa = \<lparr>req_title = ''Mona Lisa Digital'',
     req_description = ''A digital representation of the Mona Lisa'',
     req_assetType = ''IMAGE'',
     req_creatorId = U1,
     req_contentHash = replicate 64 (CHR ''0''),
     req_metadata = Some [''fileFormat'' \<mapsto> JStr ''PNG'', ''fileSize'' \<mapsto> JNum 1048576]\<rparr>"

definition asset_A :: DigitalAsset where
  "asset_A = \<lparr>id_asset = ''a1'', title = ''Mona Lisa Digital'',
     description = ''A digital representation of the Mona Lisa'',
     assetType = IMAGE, creatorId = U1, contentHash = replicate 64 (CHR ''0''),
     registrationDate = 5, lastModified = 5, transferHistory = [], status = ACTIVE,
     metadata = [''fileFormat'' \<mapsto> JStr ''PNG'', ''fileSize'' \<mapsto> JNum 1048576]\<rparr>"

definition reg_A :: registry where
  "reg_A = \<lparr>assetStorage = [''a1'' \<mapsto> asset_A], creatorAssets = [U1 \<mapsto> [''a1'']],
     rateLimiter = [U1 \<mapsto> 1]\<rparr>"

definition transfer_B :: Transfer where
  "transfer_B = \<lparr>id_transfer = ''t1'', fromId = U1, toId = U2, transferDate = 7,
     transferType = FULL\<rparr>"

definition asset_B :: DigitalAsset where
  "asset_B = asset_A\<lparr>transferHistory := [transfer_B], status := TRANSFERRED, lastModified := 7\<rparr>"

definition reg_B :: registry where
  "reg_B = \<lparr>assetStorage = [''a1'' \<mapsto> asset_B],
     creatorAssets = [U1 \<mapsto> [], U2 \<mapsto> [''a1'']],
     rateLimiter = [U1 \<mapsto> 1]\<rparr>"




definition transfer_L :: Transfer where
  "transfer_L = \<lparr>id_transfer = ''t0'', fromId = U1, toId = U2, transferDate = 6,
     transferType = LICENSE\<rparr>"

definition asset_L :: DigitalAsset where
  "asset_L = asset_A\<lparr>transferHistory := [transfer_L], lastModified := 6\<rparr>"

definition reg_L :: registry where
  "reg_L = \<lparr>assetStorage = [''a1'' \<mapsto> asset_L], creatorAssets = [U1 \<mapsto> [''a1'']],
     rateLimiter = [U1 \<mapsto> 1]\<rparr>"






section \<open>Evaluating the handlers on the sample data\<close>

lemma isAuthorized_Some:
  "assetStorage s k = Some a \<Longrightarrow> isAuthorized s k u = (creatorId a = u)"
  by (simp add: isAuthorized_def)

lemma U1_is_uuid: "is_uuid U1"
  by (simp add: is_uuid_def U1_def is_hex_def)

lemma zeros_is_content_hash: "is_content_hash (replicate 64 (CHR ''0''))"
  by (simp add: is_content_hash_def is_hex_def list_all_iff)

lemma validate_mona_lisa:
  "validateAssetRegistration mona_lisa =
     Inr (IMAGE, [''fileFormat'' \<mapsto> JStr ''PNG'', ''fileSize'' \<mapsto> JNum 1048576])"
  using U1_is_uuid zeros_is_content_hash
  by (simp add: validateAssetRegistration_def mona_lisa_def parse_AssetType_def)
     (simp add: U1_def)

lemma create_reg_A: "createAsset empty_registry mona_lisa ''a1'' 5000000 = (Inr asset_A, reg_A)"
  by (simp add: createAsset_def rateLimit_def empty_registry_def validate_mona_lisa Let_def
        getCurrentDate_def)
     (simp add: mona_lisa_def asset_A_def reg_A_def)

lemma transfer_reg_B:
  "transferAsset reg_A ''a1'' U1 U2 FULL ''t1'' 7000000 = (Inr asset_B, reg_B)"
  by (simp add: transferAsset_def isAuthorized_def reg_A_def asset_A_def Let_def
        getCurrentDate_def asset_B_def reg_B_def transfer_B_def U1_def U2_def fun_upd_twist)



lemma U1_neq_U2: "U1 \<noteq> U2"
  by (simp add: U1_def U2_def)

section \<open>Full transfer\<close>

text \<open>
  What a FULL transfer to another creator does in any registry: everything the
  specification lists, except that \<open>creatorId\<close> is left as it was.
\<close>

lemma full_transfer_effect:
  assumes "assetStorage s assetId = Some asset" and "creatorId asset = actor"
    and "status asset = ACTIVE" and "creatorAssets s (creatorId asset) = Some ids"
    and "toUser \<noteq> creatorId asset"
  shows "\<exists>r s' ids'. transferAsset s assetId actor toUser FULL uuid t = (Inr r, s')
       \<and> status r = TRANSFERRED
       \<and> creatorId r = creatorId asset
       \<and> transferHistory r = transferHistory asset @
            [\<lparr>id_transfer = uuid, fromId = creatorId asset, toId = toUser,
              transferDate = getCurrentDate t, transferType = FULL\<rparr>]
       \<and> assetStorage s' (id_asset asset) = Some r
       \<and> creatorAssets s' (creatorId asset) = Some (filter (\<lambda>i. i \<noteq> id_asset asset) ids)
       \<and> creatorAssets s' toUser = Some ids' \<and> id_asset asset \<in> set ids'"
  using assms
  by (auto simp add: transferAsset_def isAuthorized_Some Let_def split: option.splits)

text \<open>
  Claim C1. An authorized FULL transfer of an ACTIVE asset is said to succeed and leave the
  asset TRANSFERRED, owned by the receiver, with one more transfer record, out of the old
  creator's list and in the receiver's. Evaluated on scenarios A and B (\<open>U1\<close> registers the
  asset, then transfers it in full to \<open>U2\<close>): the handler succeeds, the status, the history
  and both index entries are as claimed, but the \<open>creatorId\<close> of the returned and stored
  asset is still \<open>U1\<close>. The handler builds the updated asset from the old one and overrides
  \<open>transferHistory\<close>, \<open>status\<close> and \<open>lastModified\<close> only.
\<close>

theorem full_transfer_keeps_creatorId:
  "transferAsset (snd (createAsset empty_registry mona_lisa ''a1'' 5000000))
       ''a1'' U1 U2 FULL ''t1'' 7000000 = (Inr asset_B, reg_B)
   \<and> status asset_B = TRANSFERRED
   \<and> length (transferHistory asset_B) = Suc (length (transferHistory asset_A))
   \<and> creatorAssets reg_B U1 = Some []
   \<and> creatorAssets reg_B U2 = Some [''a1'']
   \<and> assetStorage reg_B ''a1'' = Some asset_B
   \<and> creatorId asset_B = U1 \<and> creatorId asset_B \<noteq> U2"
  by (simp add: create_reg_A transfer_reg_B)
     (simp add: asset_B_def asset_A_def reg_B_def U1_def U2_def)

section \<open>Index consistency\<close>

text \<open>
  Claim C2. After every sequence of operations from the empty registry, the identifier of
  each stored asset is said to be in the index entry of the asset's \<open>creatorId\<close> and in no
  other entry. After the sequence "register, then transfer in full" the stored asset has
  \<open>creatorId = U1\<close>, the entry of \<open>U1\<close> is empty and the entry of \<open>U2\<close> holds the asset.
\<close>

theorem index_diverges_after_full_transfer:
  "run empty_registry
     [CreateAsset mona_lisa ''a1'' 5000000,
      TransferAsset ''a1'' U1 U2 FULL ''t1'' 7000000] = reg_B
   \<and> assetStorage reg_B ''a1'' = Some asset_B
   \<and> creatorId asset_B = U1
   \<and> creatorAssets reg_B (creatorId asset_B) = Some []
   \<and> U2 \<noteq> creatorId asset_B
   \<and> creatorAssets reg_B U2 = Some [id_asset asset_B]"
  by (simp add: run_def create_reg_A transfer_reg_B)
     (simp add: asset_B_def asset_A_def reg_B_def U1_def U2_def)

section \<open>Requests for an asset that is not stored\<close>

lemma absent_asset_unauthorized:
  assumes "assetStorage s assetId = None"
  shows "transferAsset s assetId actor toUser ttype uuid t = (Inl (AppError ''Unauthorized'' 403), s)"
    and "updateAssetMetadata s assetId actor md t = (Inl (AppError ''Unauthorized'' 403), s)"
    and "revokeAsset s assetId actor t = (Inl (AppError ''Unauthorized'' 403), s)"
    and "deleteAsset s assetId actor t = (Inl (AppError ''Unauthorized'' 403), s)"
  using assms
  by (simp_all add: transferAsset_def updateAssetMetadata_def revokeAsset_def deleteAsset_def
        isAuthorized_def)

text \<open>
  Claim C3. A mutating operation on an identifier that is not in the asset store is said to
  fail with NotFound (404, "Asset not found"). Each handler calls \<open>isAuthorized\<close> first,
  which answers \<open>False\<close> for an absent asset, so the request fails with "Unauthorized"
  (403) and the 404 branch that follows is never taken. Evaluated on the empty registry,
  where the read-only route does answer 404 for the same identifier, whatever the store's
  decoder and the reply's encoder are.
\<close>

theorem absent_asset_gets_403_not_404:
  "assetStorage empty_registry ''a1'' = None
   \<and> fst (transferAsset empty_registry ''a1'' U1 U2 FULL ''t1'' 7000000)
        = Inl (AppError ''Unauthorized'' 403)
   \<and> fst (updateAssetMetadata empty_registry ''a1'' U1 Map.empty 7000000)
        = Inl (AppError ''Unauthorized'' 403)
   \<and> fst (revokeAsset empty_registry ''a1'' U1 7000000) = Inl (AppError ''Unauthorized'' 403)
   \<and> fst (deleteAsset empty_registry ''a1'' U1 7000000) = Inl (AppError ''Unauthorized'' 403)
   \<and> handleError (AppError ''Unauthorized'' 403) = 403
   \<and> getAssetById lib empty_registry ''a1'' = Inl (AppError ''Asset not found'' 404)"
proof -
  have none: "assetStorage empty_registry ''a1'' = None"
    by (simp add: empty_registry_def)
  show ?thesis
    using none
    by (simp add: absent_asset_unauthorized handleError_def getAssetById_def stable_get_def)
qed

section \<open>Authorization\<close>



section \<open>Status legality of transfers\<close>



section \<open>License transfer\<close>



section \<open>Revocation and deletion\<close>





section \<open>The unguarded read of the old creator's index entry\<close>

lemma typeError_only_from_missing_entry:
  assumes "fst (transferAsset s assetId actor toUser ttype uuid t) = Inl TypeError"
  shows "\<exists>asset. assetStorage s assetId = Some asset \<and> ttype = FULL
           \<and> creatorAssets s (creatorId asset) = None"
  using assms
  by (auto simp add: transferAsset_def Let_def split: if_splits option.splits)



section \<open>Pagination\<close>








subsection \<open>The instance\<close>

text \<open>
  Under the instance, an asset whose metadata nowhere has a member named
  \<^verbatim>\<open>__bigint__\<close> is read back and encoded without an exception.
\<close>

lemma marker_no_bigint:
  "field ''__bigint__'' = None \<Longrightarrow> marker field = Some v \<Longrightarrow> \<not> has_bigint v"
  by (auto simp add: marker_def split: option.splits jsvalue.splits)

lemma map_of_rev_absent:
  "k \<notin> fst ` set members \<Longrightarrow> map_of (rev (map (map_prod id f) members)) k = None"
  by (auto simp add: map_of_eq_None_iff image_iff)

lemma bigint_free_revive: "bigint_free x \<Longrightarrow> \<not> has_bigint (revive x)"
proof (induction x)
  case (JArr xs)
  then show ?case
    by (auto simp add: list_ex_iff list_all_iff)
next
  case (JObj members)
  then have absent: "map_of (rev (map (map_prod id revive) members)) ''__bigint__'' = None"
    by (simp add: map_of_rev_absent)
  have kids: "\<not> has_bigint (VObj (map (map_prod id revive) members))"
    using JObj by (fastforce simp add: list_ex_iff list_all_iff)
  show ?case
    using absent kids
      marker_no_bigint [where field = "map_of (rev (map (map_prod id revive) members))"]
    by (auto simp add: revive_object_def split: option.splits)
qed simp_all

lemma bigint_free_listed:
  assumes "metadata a ''__bigint__'' = None" and "\<forall>x\<in>ran (metadata a). bigint_free x"
  shows "\<exists>v. fromBytes stable_json a = Inr v \<and> \<not> stringify_raises stable_json v"
proof -
  let ?field = "\<lambda>key. map_option revive (metadata a key)"
  have top: "?field ''__bigint__'' = None"
    using assms(1) by simp
  have kids: "\<forall>x\<in>ran ?field. \<not> has_bigint x"
    using assms(2) by (auto simp add: ran_def bigint_free_revive)
  show ?thesis
    using kids top marker_no_bigint [where field = ?field]
    by (auto simp add: stable_json_def asset_raises_def revive_metadata_def Let_def
        split: option.splits)
qed

subsection \<open>The sample assets under the instance\<close>









section \<open>Transfer histories only grow\<close>

lemma history_kept_refl: "history_kept s s"
  by (auto simp add: history_kept_def)

lemma history_kept_trans:
  "history_kept s s' \<Longrightarrow> history_kept s' s'' \<Longrightarrow> history_kept s s''"
  unfolding history_kept_def by (meson prefix_order.trans)

lemma create_keys_wf: "keys_wf s \<Longrightarrow> keys_wf (snd (createAsset s body uuid t))"
  by (auto simp add: createAsset_def keys_wf_def rateLimit_def Let_def
      split: prod.splits bool.splits sum.splits option.splits if_splits)

lemma create_history:
  "assetStorage s uuid = None \<Longrightarrow> history_kept s (snd (createAsset s body uuid t))"
  by (auto simp add: createAsset_def history_kept_def rateLimit_def Let_def
      split: prod.splits bool.splits sum.splits option.splits if_splits)

lemma transfer_keys_wf: "keys_wf s \<Longrightarrow> keys_wf (snd (transferAsset s k u v ty uuid t))"
  by (auto simp add: transferAsset_def keys_wf_def Let_def split: option.splits if_splits)

lemma transfer_history:
  "keys_wf s \<Longrightarrow> history_kept s (snd (transferAsset s k u v ty uuid t))"
  by (auto simp add: transferAsset_def keys_wf_def history_kept_def Let_def
      split: option.splits if_splits)

lemma update_keys_wf: "keys_wf s \<Longrightarrow> keys_wf (snd (updateAssetMetadata s k u md t))"
  by (auto simp add: updateAssetMetadata_def keys_wf_def Let_def split: option.splits if_splits)

lemma update_history: "keys_wf s \<Longrightarrow> history_kept s (snd (updateAssetMetadata s k u md t))"
  by (auto simp add: updateAssetMetadata_def keys_wf_def history_kept_def Let_def
      split: option.splits if_splits)

lemma revoke_keys_wf: "keys_wf s \<Longrightarrow> keys_wf (snd (revokeAsset s k u t))"
  by (auto simp add: revokeAsset_def keys_wf_def Let_def split: option.splits if_splits)

lemma revoke_history: "keys_wf s \<Longrightarrow> history_kept s (snd (revokeAsset s k u t))"
  by (auto simp add: revokeAsset_def keys_wf_def history_kept_def Let_def
      split: option.splits if_splits)

lemma delete_keys_wf: "keys_wf s \<Longrightarrow> keys_wf (snd (deleteAsset s k u t))"
  by (auto simp add: deleteAsset_def keys_wf_def Let_def split: option.splits if_splits)

lemma delete_history: "keys_wf s \<Longrightarrow> history_kept s (snd (deleteAsset s k u t))"
  by (auto simp add: deleteAsset_def keys_wf_def history_kept_def Let_def
      split: option.splits if_splits)

lemma step_keys_wf: "keys_wf s \<Longrightarrow> keys_wf (step s oper)"
  by (cases oper)
     (simp_all add: create_keys_wf transfer_keys_wf update_keys_wf revoke_keys_wf
        delete_keys_wf,
      simp add: keys_wf_def timerReset_def)

lemma step_history:
  "keys_wf s \<Longrightarrow> fresh_uuids s [oper] \<Longrightarrow> history_kept s (step s oper)"
  by (cases oper)
     (simp_all add: create_history transfer_history update_history revoke_history
        delete_history,
      simp add: history_kept_def timerReset_def)

lemma run_Cons: "run s (oper # ops) = run (step s oper) ops"
  by (simp add: run_def)

lemma run_append: "run s (ops1 @ ops2) = run (run s ops1) ops2"
  by (simp add: run_def)

lemma fresh_uuids_Cons:
  "fresh_uuids s (oper # ops) \<Longrightarrow> fresh_uuids s [oper] \<and> fresh_uuids (step s oper) ops"
  by (cases oper) simp_all

lemma fresh_uuids_append:
  "fresh_uuids s (ops1 @ ops2) \<Longrightarrow> fresh_uuids s ops1 \<and> fresh_uuids (run s ops1) ops2"
proof (induction ops1 arbitrary: s)
  case Nil
  then show ?case by (simp add: run_def)
next
  case (Cons oper ops1)
  from Cons.prems have "fresh_uuids (step s oper) (ops1 @ ops2)"
    by (cases oper) simp_all
  from Cons.IH [OF this] Cons.prems show ?case
    by (cases oper) (simp_all add: run_Cons)
qed

lemma run_keys_wf: "keys_wf s \<Longrightarrow> keys_wf (run s ops)"
  by (induction ops arbitrary: s) (simp_all add: run_def step_keys_wf)

lemma run_history:
  "keys_wf s \<Longrightarrow> fresh_uuids s ops \<Longrightarrow> history_kept s (run s ops)"
proof (induction ops arbitrary: s)
  case Nil
  then show ?case by (simp add: run_def history_kept_refl)
next
  case (Cons oper ops)
  from fresh_uuids_Cons [OF Cons.prems(2)]
  have f1: "fresh_uuids s [oper]" and f2: "fresh_uuids (step s oper) ops"
    by simp_all
  have "history_kept s (step s oper)"
    using Cons.prems(1) f1 by (rule step_history)
  moreover have "history_kept (step s oper) (run (step s oper) ops)"
    using step_keys_wf [OF Cons.prems(1)] f2 by (rule Cons.IH)
  ultimately show ?case
    unfolding run_Cons by (rule history_kept_trans)
qed

lemma empty_keys_wf: "keys_wf empty_registry"
  by (simp add: keys_wf_def empty_registry_def)

text \<open>
  Claim C8. Take any sequence of operations run from the empty registry, in which the
  identifier generated for each new asset is fresh, and split it at any point. An asset
  stored after the first part is still stored after the whole sequence, its transfer
  history is at least as long, and the records it had after the first part are the first
  records of its history afterwards, unchanged and in the same order.
\<close>

theorem history_monotone:
  assumes "fresh_uuids empty_registry (ops1 @ ops2)"
    and "assetStorage (run empty_registry ops1) k = Some a"
  shows "\<exists>a'. assetStorage (run empty_registry (ops1 @ ops2)) k = Some a'
           \<and> length (transferHistory a) \<le> length (transferHistory a')
           \<and> take (length (transferHistory a)) (transferHistory a') = transferHistory a"
proof -
  have wf: "keys_wf (run empty_registry ops1)"
    using empty_keys_wf by (rule run_keys_wf)
  have fr: "fresh_uuids (run empty_registry ops1) ops2"
    using fresh_uuids_append [OF assms(1)] by simp
  have "history_kept (run empty_registry ops1) (run (run empty_registry ops1) ops2)"
    using wf fr by (rule run_history)
  with assms(2) obtain a' where a': "assetStorage (run empty_registry (ops1 @ ops2)) k = Some a'"
    "prefix (transferHistory a) (transferHistory a')"
    unfolding history_kept_def run_append by blast
  from a'(2) have "length (transferHistory a) \<le> length (transferHistory a')"
    by (rule prefix_length_le)
  moreover from a'(2)
  have "take (length (transferHistory a)) (transferHistory a') = transferHistory a"
    by (auto simp add: prefix_def)
  ultimately show ?thesis
    using a'(1) by blast
qed

lemma license_reg_L:
  "transferAsset reg_A ''a1'' U1 U2 LICENSE ''t0'' 6000000 = (Inr asset_L, reg_L)"
  by (simp add: transferAsset_def isAuthorized_def reg_A_def asset_A_def Let_def
        getCurrentDate_def asset_L_def reg_L_def transfer_L_def)

theorem history_monotone_witness:
  "fresh_uuids empty_registry
     ([CreateAsset mona_lisa ''a1'' 5000000, TransferAsset ''a1'' U1 U2 LICENSE ''t0'' 6000000]
      @ [UpdateAssetMetadata ''a1'' U1 [''fileFormat'' \<mapsto> JStr ''JPEG''] 7000000,
         TransferAsset ''a1'' U1 U2 FULL ''t1'' 8000000,
         DeleteAsset ''a1'' U1 9000000])
   \<and> assetStorage (run empty_registry
        [CreateAsset mona_lisa ''a1'' 5000000,
         TransferAsset ''a1'' U1 U2 LICENSE ''t0'' 6000000]) ''a1'' = Some asset_L
   \<and> transferHistory asset_L = [transfer_L]
   \<and> (\<exists>a'. assetStorage (run empty_registry
        ([CreateAsset mona_lisa ''a1'' 5000000, TransferAsset ''a1'' U1 U2 LICENSE ''t0'' 6000000]
         @ [UpdateAssetMetadata ''a1'' U1 [''fileFormat'' \<mapsto> JStr ''JPEG''] 7000000,
            TransferAsset ''a1'' U1 U2 FULL ''t1'' 8000000,
            DeleteAsset ''a1'' U1 9000000])) ''a1'' = Some a'
        \<and> 1 \<le> length (transferHistory a')
        \<and> take 1 (transferHistory a') = [transfer_L])"
proof -
  have e: "assetStorage empty_registry ''a1'' = None"
    by (simp add: empty_registry_def)
  have f: "fresh_uuids empty_registry
     ([CreateAsset mona_lisa ''a1'' 5000000, TransferAsset ''a1'' U1 U2 LICENSE ''t0'' 6000000]
      @ [UpdateAssetMetadata ''a1'' U1 [''fileFormat'' \<mapsto> JStr ''JPEG''] 7000000,
         TransferAsset ''a1'' U1 U2 FULL ''t1'' 8000000,
         DeleteAsset ''a1'' U1 9000000])"
    using e by simp
  have r: "assetStorage (run empty_registry
        [CreateAsset mona_lisa ''a1'' 5000000,
         TransferAsset ''a1'' U1 U2 LICENSE ''t0'' 6000000]) ''a1'' = Some asset_L"
    by (simp add: run_def create_reg_A license_reg_L) (simp add: reg_L_def)
  have h: "transferHistory asset_L = [transfer_L]"
    by (simp add: asset_L_def)
  show ?thesis
    using history_monotone [OF f r] f r h by simp
qed

end
